theory Spec2Isabelle
  imports Complex_Main
begin

section \<open>Tensor elements\<close>

text \<open>
  The distributions of \<^verbatim>\<open>scvi/models/distributions.py\<close> compute on tensors of floating-point
  numbers. An element is modelled as an IEEE value without rounding: a finite real, one of the
  two infinities, or NaN. The special values follow IEEE 754 as the tensor library
  implements it: no exception is ever raised by arithmetic, and a division by zero yields an
  infinity or NaN. Addition, multiplication, \<open>exp\<close> and \<open>log\<close> are taken exact on finite
  values. The division rounds: its finite quotient goes through a rounding function \<open>rnd\<close>,
  a parameter of the model about which nothing is assumed, so that a quotient may overflow
  to an infinity or underflow to zero. The zero of the model is the positive zero.
\<close>

datatype fl = Fin real | PInf | NInf | NaN

fun is_finite :: "fl \<Rightarrow> bool" where
  "is_finite (Fin _) = True"
| "is_finite _ = False"

fun fneg :: "fl \<Rightarrow> fl" where
  "fneg (Fin a) = Fin (- a)"
| "fneg PInf = NInf"
| "fneg NInf = PInf"
| "fneg NaN = NaN"

fun fadd :: "fl \<Rightarrow> fl \<Rightarrow> fl" where
  "fadd (Fin a) (Fin b) = Fin (a + b)"
| "fadd NaN _ = NaN"
| "fadd _ NaN = NaN"
| "fadd PInf NInf = NaN"
| "fadd NInf PInf = NaN"
| "fadd PInf _ = PInf"
| "fadd _ PInf = PInf"
| "fadd NInf _ = NInf"
| "fadd _ NInf = NInf"

definition fsub :: "fl \<Rightarrow> fl \<Rightarrow> fl" where
  "fsub a b = fadd a (fneg b)"

fun fmul :: "fl \<Rightarrow> fl \<Rightarrow> fl" where
  "fmul (Fin a) (Fin b) = Fin (a * b)"
| "fmul NaN _ = NaN"
| "fmul _ NaN = NaN"
| "fmul PInf (Fin b) = (if 0 < b then PInf else if b < 0 then NInf else NaN)"
| "fmul NInf (Fin b) = (if 0 < b then NInf else if b < 0 then PInf else NaN)"
| "fmul (Fin a) PInf = (if 0 < a then PInf else if a < 0 then NInf else NaN)"
| "fmul (Fin a) NInf = (if 0 < a then NInf else if a < 0 then PInf else NaN)"
| "fmul PInf PInf = PInf"
| "fmul NInf NInf = PInf"
| "fmul PInf NInf = NInf"
| "fmul NInf PInf = NInf"

fun fdiv :: "(real \<Rightarrow> fl) \<Rightarrow> fl \<Rightarrow> fl \<Rightarrow> fl" where
  "fdiv rnd (Fin a) (Fin b) =
     (if b \<noteq> 0 then rnd (a / b)
      else if 0 < a then PInf else if a < 0 then NInf else NaN)"
| "fdiv rnd NaN _ = NaN"
| "fdiv rnd _ NaN = NaN"
| "fdiv rnd (Fin a) PInf = Fin 0"
| "fdiv rnd (Fin a) NInf = Fin 0"
| "fdiv rnd PInf (Fin b) = (if 0 \<le> b then PInf else NInf)"
| "fdiv rnd NInf (Fin b) = (if 0 \<le> b then NInf else PInf)"
| "fdiv rnd PInf PInf = NaN"
| "fdiv rnd PInf NInf = NaN"
| "fdiv rnd NInf PInf = NaN"
| "fdiv rnd NInf NInf = NaN"

fun fexp :: "fl \<Rightarrow> fl" where
  "fexp (Fin a) = Fin (exp a)"
| "fexp PInf = PInf"
| "fexp NInf = Fin 0"
| "fexp NaN = NaN"

fun flog :: "fl \<Rightarrow> fl" where
  "flog (Fin a) = (if 0 < a then Fin (ln a) else if a = 0 then NInf else NaN)"
| "flog PInf = PInf"
| "flog NInf = NaN"
| "flog NaN = NaN"

text \<open>Comparisons: every comparison with NaN is false.\<close>

fun fle :: "fl \<Rightarrow> fl \<Rightarrow> bool" where
  "fle (Fin a) (Fin b) = (a \<le> b)"
| "fle NaN _ = False"
| "fle _ NaN = False"
| "fle NInf _ = True"
| "fle _ PInf = True"
| "fle PInf _ = False"
| "fle _ NInf = False"

fun flt :: "fl \<Rightarrow> fl \<Rightarrow> bool" where
  "flt (Fin a) (Fin b) = (a < b)"
| "flt NaN _ = False"
| "flt _ NaN = False"
| "flt PInf _ = False"
| "flt _ NInf = False"
| "flt NInf _ = True"
| "flt _ PInf = True"

text \<open>\<^verbatim>\<open>torch.sigmoid\<close>, the binary logit-to-probability transform.\<close>

fun sigmoid :: "fl \<Rightarrow> fl" where
  "sigmoid (Fin a) = Fin (1 / (1 + exp (- a)))"
| "sigmoid PInf = Fin 1"
| "sigmoid NInf = Fin 0"
| "sigmoid NaN = NaN"

text \<open>\<^verbatim>\<open>torch.clamp(x, max=m)\<close> on one element: NaN is propagated.\<close>

fun clamp_max :: "real \<Rightarrow> fl \<Rightarrow> fl" where
  "clamp_max m NaN = NaN"
| "clamp_max m x = (if flt (Fin m) x then Fin m else x)"

text \<open>\<^verbatim>\<open>x.clamp(min=lo, max=hi)\<close> on one element.\<close>

fun clamp_min_max :: "real \<Rightarrow> real \<Rightarrow> fl \<Rightarrow> fl" where
  "clamp_min_max lo hi NaN = NaN"
| "clamp_min_max lo hi x =
     (if flt x (Fin lo) then Fin lo else if flt (Fin hi) x then Fin hi else x)"

section \<open>Tensors and broadcasting\<close>

text \<open>
  A tensor is modelled with one dimension, as the list of its elements. Broadcasting follows
  the library's rule on that dimension: lengths must agree, except that a length of one is
  stretched to the other length.
\<close>

type_synonym tensor = "fl list"

datatype error =
    ConfigurationError   \<comment> \<open>the \<^verbatim>\<open>ValueError\<close> raised by \<^verbatim>\<open>NB.__init__\<close> itself\<close>
  | DomainError          \<comment> \<open>the \<^verbatim>\<open>ValueError\<close> of the library's constraint validation\<close>
  | BroadcastValueError  \<comment> \<open>\<^verbatim>\<open>broadcast_all\<close> given something that is no tensor or number\<close>
  | BroadcastShapeError  \<comment> \<open>shapes that do not broadcast (\<^verbatim>\<open>RuntimeError\<close>)\<close>
  | IndexError           \<comment> \<open>a boolean mask whose shape is not the shape of the indexed tensor\<close>
  | AssertionError
  | TypeError
  | AttributeError

definition expand_to :: "nat \<Rightarrow> tensor \<Rightarrow> tensor" where
  "expand_to n t = (if length t = n then t else replicate n (hd t))"

definition broadcast_tensors :: "tensor list \<Rightarrow> error + tensor list" where
  "broadcast_tensors ts =
     (let ns = filter (\<lambda>n. n \<noteq> 1) (map length ts);
          n = (case ns of [] \<Rightarrow> 1 | k # _ \<Rightarrow> k)
      in if list_all (\<lambda>m. m = n) ns then Inr (map (expand_to n) ts)
         else Inl BroadcastShapeError)"

text \<open>
  \<^verbatim>\<open>broadcast_all(*values)\<close>: an argument that is \<^verbatim>\<open>None\<close> is rejected with a
  \<^verbatim>\<open>ValueError\<close> before any broadcasting.
\<close>

definition broadcast_all :: "tensor option list \<Rightarrow> error + tensor list" where
  "broadcast_all vs =
     (if list_all (\<lambda>v. v \<noteq> None) vs then broadcast_tensors (map the vs)
      else Inl BroadcastValueError)"

text \<open>An elementwise binary operation of the library, with broadcasting of its operands.\<close>

definition tbin :: "(fl \<Rightarrow> fl \<Rightarrow> fl) \<Rightarrow> tensor \<Rightarrow> tensor \<Rightarrow> error + tensor" where
  "tbin f a b =
     (case broadcast_tensors [a, b] of
        Inl e \<Rightarrow> Inl e
      | Inr bs \<Rightarrow> Inr (map2 f (bs ! 0) (bs ! 1)))"

section \<open>Parameterization converter\<close>

text \<open>
  \<^verbatim>\<open>from_nb_params2_to_1(mu, theta, eps)\<close>: the assertion fails when exactly one argument is
  \<^verbatim>\<open>None\<close>; with both \<^verbatim>\<open>None\<close> the assertion passes and \<^verbatim>\<open>mu + eps\<close> raises a
  \<^verbatim>\<open>TypeError\<close>. The result is the pair \<^verbatim>\<open>(total_count, logits)\<close>.
\<close>

definition from_nb_params2_to_1 ::
  "tensor option \<Rightarrow> tensor option \<Rightarrow> real \<Rightarrow> error + (tensor \<times> tensor)" where
  "from_nb_params2_to_1 mu_arg theta_arg eps =
     (if (mu_arg = None) \<noteq> (theta_arg = None) then Inl AssertionError
      else case mu_arg of
        None \<Rightarrow> Inl TypeError
      | Some m \<Rightarrow>
         (case theta_arg of
            None \<Rightarrow> Inl TypeError
          | Some t \<Rightarrow>
             (case tbin fsub (map flog (map (\<lambda>x. fadd x (Fin eps)) m))
                             (map flog (map (\<lambda>x. fadd x (Fin eps)) t)) of
                Inl e \<Rightarrow> Inl e
              | Inr logits \<Rightarrow> Inr (t, logits))))"

text \<open>\<^verbatim>\<open>from_nb_params1_to_2(total_count, logits)\<close>: the result is the pair \<^verbatim>\<open>(mu, theta)\<close>.\<close>

definition from_nb_params1_to_2 :: "tensor \<Rightarrow> tensor \<Rightarrow> error + (tensor \<times> tensor)" where
  "from_nb_params1_to_2 total_count logits =
     (let theta_v = total_count
      in case tbin fmul (map fexp logits) theta_v of
           Inl e \<Rightarrow> Inl e
         | Inr mu_v \<Rightarrow> Inr (mu_v, theta_v))"

section \<open>Constraints and validation in the distribution base class\<close>

text \<open>
  The constraint objects of the tensor library, as predicates on one element:
  \<^verbatim>\<open>greater_than(lb)\<close> checks \<^verbatim>\<open>lb < value\<close>, \<^verbatim>\<open>greater_than_eq(lb)\<close> checks
  \<^verbatim>\<open>lb <= value\<close>, \<^verbatim>\<open>half_open_interval(lo, hi)\<close> checks \<^verbatim>\<open>(lo <= value) & (value < hi)\<close>,
  \<^verbatim>\<open>real\<close> checks \<^verbatim>\<open>value == value\<close>, which rejects NaN only, and \<^verbatim>\<open>nonnegative_integer\<close>
  checks \<^verbatim>\<open>(value % 1 == 0) & (value >= 0)\<close>.
\<close>

definition greater_than :: "real \<Rightarrow> fl \<Rightarrow> bool" where
  "greater_than lb x = flt (Fin lb) x"

definition greater_than_eq :: "real \<Rightarrow> fl \<Rightarrow> bool" where
  "greater_than_eq lb x = fle (Fin lb) x"

definition half_open_interval :: "real \<Rightarrow> real \<Rightarrow> fl \<Rightarrow> bool" where
  "half_open_interval lo hi x = (fle (Fin lo) x \<and> flt x (Fin hi))"

definition real_constraint :: "fl \<Rightarrow> bool" where
  "real_constraint x = (x \<noteq> NaN)"

text \<open>\<^verbatim>\<open>value % 1\<close>: the remainder of a finite value is its fractional part, of an infinity NaN.\<close>

fun fmod1 :: "fl \<Rightarrow> fl" where
  "fmod1 (Fin a) = Fin (frac a)"
| "fmod1 _ = NaN"

definition nonnegative_integer :: "fl \<Rightarrow> bool" where
  "nonnegative_integer x = (fmod1 x = Fin 0 \<and> fle (Fin 0) x)"

datatype cls = NB_cls | ZINB_cls

definition arg_constraints :: "cls \<Rightarrow> (string \<times> (fl \<Rightarrow> bool)) list" where
  "arg_constraints c =
     (case c of
        NB_cls \<Rightarrow> [(''mu'', greater_than_eq 0), (''theta'', greater_than_eq 0)]
      | ZINB_cls \<Rightarrow>
          [(''mu'', greater_than_eq 0), (''theta'', greater_than_eq 0),
           (''zi_probs'', half_open_interval 0 1), (''zi_logits'', real_constraint)])"

text \<open>The attributes a class declares with \<^verbatim>\<open>@lazy_property\<close>.\<close>

definition lazy_properties :: "cls \<Rightarrow> string list" where
  "lazy_properties c = (case c of NB_cls \<Rightarrow> [] | ZINB_cls \<Rightarrow> [''zi_logits'', ''zi_probs''])"

text \<open>
  The loop of \<^verbatim>\<open>Distribution.__init__\<close> over \<^verbatim>\<open>arg_constraints\<close>. The instance dictionary
  is \<open>d\<close>. A parameter that is not in the instance dictionary and is a lazy property of
  the class is skipped; any other parameter is read and checked on all its elements.
\<close>

fun validate_params ::
  "string list \<Rightarrow> (string \<rightharpoonup> tensor) \<Rightarrow> (string \<times> (fl \<Rightarrow> bool)) list \<Rightarrow> error option" where
  "validate_params lazy d [] = None"
| "validate_params lazy d ((p, c) # rest) =
     (if d p = None \<and> p \<in> set lazy then validate_params lazy d rest
      else case d p of
        None \<Rightarrow> Some AttributeError
      | Some v \<Rightarrow> if list_all c v then validate_params lazy d rest else Some DomainError)"

definition Distribution_init :: "cls \<Rightarrow> (string \<rightharpoonup> tensor) \<Rightarrow> bool \<Rightarrow> error option" where
  "Distribution_init c d va =
     (if va then validate_params (lazy_properties c) d (arg_constraints c) else None)"

text \<open>
  \<^verbatim>\<open>Distribution._validate_sample\<close>: the instance is built with the default, empty batch
  and event shapes, so the shape tests of the library never fail; what remains is the
  support test, here \<^verbatim>\<open>nonnegative_integer\<close> for both classes.
\<close>

definition validate_sample :: "tensor \<Rightarrow> error option" where
  "validate_sample v = (if list_all nonnegative_integer v then None else Some DomainError)"

section \<open>The negative binomial distribution\<close>

record NB_obj =
  NB_eps :: real
  mu :: tensor
  theta :: tensor
  validate_args :: bool

text \<open>
  The machine epsilon that \<^verbatim>\<open>clamp_probs\<close> reads from the element type of its argument.
  Tensors carry no element type here: they are taken to be of the library's default type,
  single precision.
\<close>

definition finfo_eps :: real where
  "finfo_eps = 1 / 2 ^ 23"

text \<open>\<^verbatim>\<open>probs_to_logits(probs)\<close> with \<^verbatim>\<open>is_binary=False\<close>: the log of the clamped probabilities.\<close>

definition probs_to_logits :: "tensor \<Rightarrow> tensor" where
  "probs_to_logits probs = map flog (map (clamp_min_max finfo_eps (1 - finfo_eps)) probs)"

text \<open>\<^verbatim>\<open>logits_to_probs(logits, is_binary=True)\<close>.\<close>

definition logits_to_probs_binary :: "tensor \<Rightarrow> tensor" where
  "logits_to_probs_binary logits = map sigmoid logits"

text \<open>
  Lines 80 to 89 of \<^verbatim>\<open>NB.__init__\<close>: \<^verbatim>\<open>using_param_1\<close> holds when \<^verbatim>\<open>total_count\<close> is set
  together with \<^verbatim>\<open>logits\<close> or \<^verbatim>\<open>probs\<close>; \<^verbatim>\<open>logits\<close> has precedence over \<^verbatim>\<open>probs\<close>. The
  cast \<^verbatim>\<open>type_as\<close> changes no value. In every other case the \<^verbatim>\<open>mu\<close> and \<^verbatim>\<open>theta\<close> arguments
  are broadcast as they were given.
\<close>

definition NB_param_1 :: "tensor \<Rightarrow> tensor \<Rightarrow> error + (tensor \<times> tensor)" where
  "NB_param_1 total_count logits =
     (case broadcast_all [Some total_count, Some logits] of
        Inl e \<Rightarrow> Inl e
      | Inr bs \<Rightarrow> from_nb_params1_to_2 (bs ! 0) (bs ! 1))"

definition NB_param_2 :: "tensor option \<Rightarrow> tensor option \<Rightarrow> error + (tensor \<times> tensor)" where
  "NB_param_2 mu_arg theta_arg =
     (case broadcast_all [mu_arg, theta_arg] of
        Inl e \<Rightarrow> Inl e
      | Inr bs \<Rightarrow> Inr (bs ! 0, bs ! 1))"

definition NB_params ::
  "tensor option \<Rightarrow> tensor option \<Rightarrow> tensor option \<Rightarrow> tensor option \<Rightarrow> tensor option
     \<Rightarrow> error + (tensor \<times> tensor)" where
  "NB_params total_count probs logits mu_arg theta_arg =
     (case total_count of
        None \<Rightarrow> NB_param_2 mu_arg theta_arg
      | Some tc \<Rightarrow>
         (case logits of
            Some l \<Rightarrow> NB_param_1 tc l
          | None \<Rightarrow>
             (case probs of
                Some p \<Rightarrow> NB_param_1 tc (probs_to_logits p)
              | None \<Rightarrow> NB_param_2 mu_arg theta_arg)))"

text \<open>
  \<^verbatim>\<open>NB.__init__\<close>. The class \<open>c\<close> is the class of the instance under construction, whose
  \<^verbatim>\<open>arg_constraints\<close> the base class validates; at that point the instance dictionary holds
  \<^verbatim>\<open>mu\<close> and \<^verbatim>\<open>theta\<close> only.
\<close>

definition NB_init ::
  "cls \<Rightarrow> tensor option \<Rightarrow> tensor option \<Rightarrow> tensor option \<Rightarrow> tensor option \<Rightarrow> tensor option
     \<Rightarrow> bool \<Rightarrow> error + NB_obj" where
  "NB_init c total_count probs logits mu_arg theta_arg va =
     (if (mu_arg = None) = (total_count = None) then Inl ConfigurationError
      else case NB_params total_count probs logits mu_arg theta_arg of
        Inl e \<Rightarrow> Inl e
      | Inr (m, t) \<Rightarrow>
         (case Distribution_init c [''mu'' \<mapsto> m, ''theta'' \<mapsto> t] va of
            Some e \<Rightarrow> Inl e
          | None \<Rightarrow> Inr \<lparr>NB_eps = 1 / 10 ^ 8, mu = m, theta = t, validate_args = va\<rparr>))"

text \<open>
  The constructors of the library's \<^verbatim>\<open>Gamma\<close> and \<^verbatim>\<open>Poisson\<close> distributions, which
  \<^verbatim>\<open>_gamma\<close> and \<^verbatim>\<open>sample\<close> call with no \<^verbatim>\<open>validate_args\<close>. The library then validates
  when its global default is on, as it is unless the interpreter runs optimised or the
  default was switched off; this default is the parameter \<open>dv\<close>. \<^verbatim>\<open>Gamma\<close> broadcasts its
  arguments and requires both to be greater than zero; \<^verbatim>\<open>Poisson\<close> requires a rate that is
  at least zero. A Gamma distribution object is the pair of its concentration and rate, a
  Poisson distribution object is its rate.
\<close>

definition Gamma_init :: "bool \<Rightarrow> tensor \<Rightarrow> tensor \<Rightarrow> error + (tensor \<times> tensor)" where
  "Gamma_init dv concentration rate =
     (case broadcast_all [Some concentration, Some rate] of
        Inl e \<Rightarrow> Inl e
      | Inr bs \<Rightarrow>
         (case (if dv
                then validate_params [] [''concentration'' \<mapsto> bs ! 0, ''rate'' \<mapsto> bs ! 1]
                       [(''concentration'', greater_than 0), (''rate'', greater_than 0)]
                else None) of
            Some e \<Rightarrow> Inl e
          | None \<Rightarrow> Inr (bs ! 0, bs ! 1)))"

definition Poisson_init :: "bool \<Rightarrow> tensor \<Rightarrow> error + tensor" where
  "Poisson_init dv rate =
     (case (if dv then validate_params [] [''rate'' \<mapsto> rate] [(''rate'', greater_than_eq 0)]
            else None) of
        Some e \<Rightarrow> Inl e
      | None \<Rightarrow> Inr rate)"

text \<open>
  \<^verbatim>\<open>NB._gamma\<close>: the rate is \<^verbatim>\<open>self.theta / self.mu\<close>, divided as the tensors are, and the
  result is the Gamma distribution object, or the error of its constructor.
\<close>

definition NB_gamma ::
  "(real \<Rightarrow> fl) \<Rightarrow> bool \<Rightarrow> 'a NB_obj_scheme \<Rightarrow> error + (tensor \<times> tensor)" where
  "NB_gamma rnd dv nb =
     (let concentration = theta nb
      in case tbin (fdiv rnd) (theta nb) (mu nb) of
           Inl e \<Rightarrow> Inl e
         | Inr rate \<Rightarrow> Gamma_init dv concentration rate)"

text \<open>
  The random draws of the library are parameters of the model. \<open>G j c r\<close> is the Gamma draw
  for element \<open>j\<close> of the output at concentration \<open>c\<close> and rate \<open>r\<close>, \<open>P j l\<close> the Poisson
  draw for element \<open>j\<close> at rate \<open>l\<close>, and \<open>U j\<close> the uniform draw for element \<open>j\<close>. A sample
  has the shape \<^verbatim>\<open>sample_shape + batch_shape\<close>; it is stored flat, so that element \<open>j\<close>
  uses the parameters at index \<open>j mod b\<close> for a batch of \<open>b\<close> elements.
\<close>

definition Gamma_sample ::
  "(nat \<Rightarrow> fl \<Rightarrow> fl \<Rightarrow> fl) \<Rightarrow> nat list \<Rightarrow> tensor \<times> tensor \<Rightarrow> tensor" where
  "Gamma_sample G sample_shape gamma_d =
     (let concentration = fst gamma_d; rate = snd gamma_d; b = length concentration
      in map (\<lambda>j. G j (concentration ! (j mod b)) (rate ! (j mod b)))
             [0 ..< prod_list sample_shape * b])"

definition Poisson_sample :: "(nat \<Rightarrow> fl \<Rightarrow> fl) \<Rightarrow> tensor \<Rightarrow> tensor" where
  "Poisson_sample P rate = map (\<lambda>j. P j (rate ! j)) [0 ..< length rate]"

text \<open>
  \<^verbatim>\<open>NB.sample\<close>: the Gamma draws are clamped at \<^verbatim>\<open>1e8\<close>, and the clamped tensor is the rate
  given to the \<^verbatim>\<open>Poisson\<close> constructor, whose object is then sampled.
\<close>

definition NB_sample ::
  "(real \<Rightarrow> fl) \<Rightarrow> bool \<Rightarrow> (nat \<Rightarrow> fl \<Rightarrow> fl \<Rightarrow> fl) \<Rightarrow> (nat \<Rightarrow> fl \<Rightarrow> fl) \<Rightarrow> 'a NB_obj_scheme
     \<Rightarrow> nat list \<Rightarrow> error + tensor" where
  "NB_sample rnd dv G P nb sample_shape =
     (case NB_gamma rnd dv nb of
        Inl e \<Rightarrow> Inl e
      | Inr gamma_d \<Rightarrow>
         (let p_means = Gamma_sample G sample_shape gamma_d;
              l_train = map (clamp_max (10 ^ 8)) p_means
          in case Poisson_init dv l_train of
               Inl e \<Rightarrow> Inl e
             | Inr poisson_d \<Rightarrow> Inr (Poisson_sample P poisson_d)))"

text \<open>
  \<^verbatim>\<open>NB.log_prob\<close>. The kernel \<^verbatim>\<open>log_nb_positive\<close> lives in another module and is a parameter
  \<open>K\<close> of the model, called as \<open>K value mu theta eps\<close>.
\<close>

definition NB_log_prob ::
  "(tensor \<Rightarrow> tensor \<Rightarrow> tensor \<Rightarrow> real \<Rightarrow> 'r) \<Rightarrow> 'a NB_obj_scheme \<Rightarrow> tensor \<Rightarrow> error + 'r" where
  "NB_log_prob K nb v =
     (case (if validate_args nb then validate_sample v else None) of
        Some e \<Rightarrow> Inl e
      | None \<Rightarrow> Inr (K v (mu nb) (theta nb) (NB_eps nb)))"

section \<open>The zero-inflated negative binomial distribution\<close>

text \<open>
  The instance dictionary of a \<^verbatim>\<open>ZINB\<close> object. The constructor always stores
  \<^verbatim>\<open>zi_logits\<close> in the instance, which shadows the lazy property of that name;
  \<^verbatim>\<open>zi_probs\<close> is absent from the instance until its lazy property has run.
\<close>

record ZINB_obj = NB_obj +
  zi_logits :: tensor
  zi_probs_attr :: "tensor option"

definition ZINB_init ::
  "tensor option \<Rightarrow> tensor option \<Rightarrow> tensor option \<Rightarrow> tensor option \<Rightarrow> tensor option
     \<Rightarrow> tensor option \<Rightarrow> bool \<Rightarrow> error + ZINB_obj" where
  "ZINB_init total_count probs logits mu_arg theta_arg zi_logits_arg va =
     (case NB_init ZINB_cls total_count probs logits mu_arg theta_arg va of
        Inl e \<Rightarrow> Inl e
      | Inr nb \<Rightarrow>
         (case broadcast_all [zi_logits_arg, Some (mu nb), Some (theta nb)] of
            Inl e \<Rightarrow> Inl e
          | Inr bs \<Rightarrow>
             Inr \<lparr>NB_eps = NB_eps nb, mu = bs ! 1, theta = bs ! 2,
                  validate_args = validate_args nb,
                  zi_logits = bs ! 0, zi_probs_attr = None\<rparr>))"

text \<open>
  A call of the constructor with keyword arguments: a keyword that is not a parameter of
  \<^verbatim>\<open>ZINB.__init__\<close> is a \<^verbatim>\<open>TypeError\<close>, a parameter that is not passed is \<^verbatim>\<open>None\<close>.
\<close>

definition ZINB_parameters :: "string list" where
  "ZINB_parameters = [''total_count'', ''probs'', ''logits'', ''mu'', ''theta'', ''zi_logits'']"

definition ZINB_call :: "(string \<times> tensor) list \<Rightarrow> bool \<Rightarrow> error + ZINB_obj" where
  "ZINB_call kwargs va =
     (if list_all (\<lambda>kv. fst kv \<in> set ZINB_parameters) kwargs
      then ZINB_init (map_of kwargs ''total_count'') (map_of kwargs ''probs'')
             (map_of kwargs ''logits'') (map_of kwargs ''mu'') (map_of kwargs ''theta'')
             (map_of kwargs ''zi_logits'') va
      else Inl TypeError)"

text \<open>
  \<^verbatim>\<open>lazy_property\<close>: reading the attribute returns the value stored in the instance when
  there is one; otherwise the wrapped function runs, and its result is stored in the
  instance and returned.
\<close>

definition lazy_property ::
  "('o \<Rightarrow> 'v) \<Rightarrow> ('o \<Rightarrow> 'v option) \<Rightarrow> ('v \<Rightarrow> 'o \<Rightarrow> 'o) \<Rightarrow> 'o \<Rightarrow> 'v \<times> 'o" where
  "lazy_property wrapped getattr setattr obj =
     (case getattr obj of
        Some v \<Rightarrow> (v, obj)
      | None \<Rightarrow> (let v = wrapped obj in (v, setattr v obj)))"

definition ZINB_zi_probs :: "ZINB_obj \<Rightarrow> tensor \<times> ZINB_obj" where
  "ZINB_zi_probs =
     lazy_property (\<lambda>z. logits_to_probs_binary (zi_logits z)) zi_probs_attr
       (\<lambda>v z. z\<lparr>zi_probs_attr := Some v\<rparr>)"

text \<open>
  The batch width of the objects that \<^verbatim>\<open>sample\<close> draws from: the common length to which
  \<^verbatim>\<open>theta\<close> and \<^verbatim>\<open>mu\<close> broadcast.
\<close>

definition batch_width :: "'a NB_obj_scheme \<Rightarrow> nat" where
  "batch_width nb =
     (case broadcast_tensors [theta nb, mu nb] of Inl e \<Rightarrow> 0 | Inr bs \<Rightarrow> length (bs ! 0))"

text \<open>
  \<^verbatim>\<open>ZINB.sample\<close>: the mask \<^verbatim>\<open>rand_like(samp) <= self.zi_probs\<close> broadcasts \<^verbatim>\<open>zi_probs\<close>
  along the batch; the masked elements of the sample are overwritten with zero. A
  \<^verbatim>\<open>zi_probs\<close> that stretches the mask beyond the sample makes the masked assignment fail,
  one that does not broadcast makes the comparison fail. The instance is returned too, since
  reading \<^verbatim>\<open>zi_probs\<close> may store it.
\<close>

definition ZINB_sample ::
  "(real \<Rightarrow> fl) \<Rightarrow> bool \<Rightarrow> (nat \<Rightarrow> fl \<Rightarrow> fl \<Rightarrow> fl) \<Rightarrow> (nat \<Rightarrow> fl \<Rightarrow> fl) \<Rightarrow> (nat \<Rightarrow> fl)
     \<Rightarrow> ZINB_obj \<Rightarrow> nat list \<Rightarrow> error + (tensor \<times> ZINB_obj)" where
  "ZINB_sample rnd dv G P U z sample_shape =
     (case NB_sample rnd dv G P z sample_shape of
        Inl e \<Rightarrow> Inl e
      | Inr samp \<Rightarrow>
         (let rand = map U [0 ..< length samp];
              (zp, z') = ZINB_zi_probs z;
              b = batch_width z; k = length zp
          in if k = b \<or> k = 1
             then (let is_zero = map (\<lambda>j. fle (rand ! j) (zp ! (j mod k))) [0 ..< length samp]
                   in Inr (map (\<lambda>j. if is_zero ! j then Fin 0 else samp ! j) [0 ..< length samp],
                           z'))
             else if b = 1 then Inl IndexError
             else Inl BroadcastShapeError))"

section \<open>Broadcasting lemmas\<close>

lemma length_expand_to: "length t = n \<or> length t = 1 \<Longrightarrow> length (expand_to n t) = n"
  by (auto simp: expand_to_def)

lemma broadcast_tensors_Inr:
  assumes "broadcast_tensors ts = Inr bs"
  shows "\<exists>n. bs = map (expand_to n) ts \<and> (\<forall>t\<in>set ts. length t = n \<or> length t = 1)"
proof -
  define ns where "ns = filter (\<lambda>n. n \<noteq> 1) (map length ts)"
  define n where "n = (case ns of [] \<Rightarrow> 1 | k # _ \<Rightarrow> k)"
  from assms have a: "list_all (\<lambda>m. m = n) ns" and b: "bs = map (expand_to n) ts"
    by (auto simp: broadcast_tensors_def Let_def ns_def n_def split: if_splits)
  have "\<forall>t\<in>set ts. length t = n \<or> length t = 1"
  proof
    fix t assume "t \<in> set ts"
    show "length t = n \<or> length t = 1"
    proof (cases "length t = 1")
      case False
      with \<open>t \<in> set ts\<close> have "length t \<in> set ns" by (auto simp: ns_def)
      with a show ?thesis by (auto simp: list_all_iff)
    qed simp
  qed
  with b show ?thesis by blast
qed

lemma broadcast_tensors_lengths:
  assumes "broadcast_tensors ts = Inr bs"
  shows "length bs = length ts \<and> (\<forall>i<length ts. \<forall>j<length ts. length (bs ! i) = length (bs ! j))"
proof -
  from broadcast_tensors_Inr[OF assms] obtain n where
    b: "bs = map (expand_to n) ts" and l: "\<forall>t\<in>set ts. length t = n \<or> length t = 1" by blast
  have "\<forall>i<length ts. length (bs ! i) = n"
    using b l by (auto simp: length_expand_to)
  with b show ?thesis by simp
qed

lemma broadcast_tensors_same2:
  "length a = length b \<Longrightarrow> broadcast_tensors [a, b] = Inr [a, b]"
  by (auto simp: broadcast_tensors_def expand_to_def Let_def)

lemma broadcast_tensors_same3:
  "length a = length b \<Longrightarrow> length b = length c \<Longrightarrow> broadcast_tensors [a, b, c] = Inr [a, b, c]"
  by (auto simp: broadcast_tensors_def expand_to_def Let_def)

lemma tbin_same: "length a = length b \<Longrightarrow> tbin f a b = Inr (map2 f a b)"
  by (simp add: tbin_def broadcast_tensors_same2)

lemma tbin_Inr_length:
  assumes "tbin f a b = Inr r" "length a = length b" shows "length r = length a"
  using assms by (auto simp: tbin_same)


lemmas eval_defs = NB_init_def NB_params_def NB_param_1_def NB_param_2_def broadcast_all_def
  broadcast_tensors_def expand_to_def Distribution_init_def arg_constraints_def
  lazy_properties_def greater_than_eq_def half_open_interval_def real_constraint_def
  from_nb_params1_to_2_def from_nb_params2_to_1_def tbin_def Let_def
  ZINB_init_def ZINB_call_def ZINB_parameters_def


section \<open>Construction\<close>

lemma broadcast_all_Some2: "broadcast_all [Some a, Some b] = broadcast_tensors [a, b]"
  by (simp add: broadcast_all_def)

lemma broadcast_all_Some3: "broadcast_all [Some a, Some b, Some c] = broadcast_tensors [a, b, c]"
  by (simp add: broadcast_all_def)

lemma Distribution_init_mu_theta:
  "Distribution_init c [''mu'' \<mapsto> m, ''theta'' \<mapsto> t] va =
     (if va \<and> \<not> (list_all (fle (Fin 0)) m \<and> list_all (fle (Fin 0)) t) then Some DomainError
      else None)"
proof -
  have eq: "greater_than_eq 0 = fle (Fin 0)"
    by (rule ext) (simp add: greater_than_eq_def)
  show ?thesis
    by (cases c) (simp_all add: Distribution_init_def arg_constraints_def lazy_properties_def eq)
qed

lemma NB_init_cases:
  "NB_init c tc p l m t va =
     (if (m = None) = (tc = None) then Inl ConfigurationError
      else case NB_params tc p l m t of
        Inl e \<Rightarrow> Inl e
      | Inr (mv, tv) \<Rightarrow>
          if va \<and> \<not> (list_all (fle (Fin 0)) mv \<and> list_all (fle (Fin 0)) tv)
          then Inl DomainError
          else Inr \<lparr>NB_eps = 1 / 10 ^ 8, mu = mv, theta = tv, validate_args = va\<rparr>)"
proof (cases "(m = None) = (tc = None)")
  case True
  then show ?thesis by (simp add: NB_init_def)
next
  case False
  have step: "NB_init c tc p l m t va =
      (case NB_params tc p l m t of
        Inl e \<Rightarrow> Inl e
      | Inr (mv, tv) \<Rightarrow>
         (case Distribution_init c [''mu'' \<mapsto> mv, ''theta'' \<mapsto> tv] va of
            Some e \<Rightarrow> Inl e
          | None \<Rightarrow> Inr \<lparr>NB_eps = 1 / 10 ^ 8, mu = mv, theta = tv, validate_args = va\<rparr>))"
    unfolding NB_init_def by (simp only: False if_False)
  have rhs: "(if (m = None) = (tc = None) then Inl ConfigurationError else X) = X" for X :: "error + NB_obj"
    by (simp only: False if_False)
  show ?thesis
    unfolding rhs step
    by (auto simp: Distribution_init_mu_theta split: sum.splits prod.splits)
qed

lemma NB_param_2_length:
  assumes "NB_param_2 m t = Inr (mv, tv)" shows "length mv = length tv"
proof -
  from assms obtain bs where bs: "broadcast_all [m, t] = Inr bs" and r: "mv = bs ! 0" "tv = bs ! 1"
    by (auto simp: NB_param_2_def split: sum.splits)
  from bs obtain a b where "m = Some a" "t = Some b"
    by (auto simp: broadcast_all_def split: if_splits)
  with bs have "broadcast_tensors [a, b] = Inr bs" by (simp add: broadcast_all_def)
  from broadcast_tensors_lengths[OF this] r show ?thesis by simp
qed

lemma from_nb_params1_to_2_length:
  assumes "from_nb_params1_to_2 tc lg = Inr (mv, tv)" "length tc = length lg"
  shows "length mv = length tv"
  using assms by (auto simp: from_nb_params1_to_2_def Let_def tbin_same split: sum.splits)

lemma NB_param_1_length:
  assumes "NB_param_1 tc lg = Inr (mv, tv)" shows "length mv = length tv"
proof -
  from assms obtain bs where bs: "broadcast_tensors [tc, lg] = Inr bs"
    and r: "from_nb_params1_to_2 (bs ! 0) (bs ! 1) = Inr (mv, tv)"
    by (auto simp: NB_param_1_def broadcast_all_Some2 split: sum.splits)
  from broadcast_tensors_lengths[OF bs] have "length (bs ! 0) = length (bs ! 1)" by simp
  from from_nb_params1_to_2_length[OF r this] show ?thesis .
qed

lemma NB_params_length:
  assumes "NB_params tc p l m t = Inr (mv, tv)" shows "length mv = length tv"
  using assms
  by (auto simp: NB_params_def split: option.splits dest: NB_param_1_length NB_param_2_length)

lemma NB_init_Inr:
  assumes "NB_init c tc p l m t va = Inr nb"
  shows "NB_eps nb = 1 / 10 ^ 8 \<and> validate_args nb = va \<and> length (mu nb) = length (theta nb)
         \<and> NB_params tc p l m t = Inr (mu nb, theta nb)
         \<and> (va \<longrightarrow> list_all (fle (Fin 0)) (mu nb) \<and> list_all (fle (Fin 0)) (theta nb))"
  using assms
  by (auto simp: NB_init_cases split: if_splits sum.splits prod.splits dest: NB_params_length)


text \<open>
  Claim C9. With \<^verbatim>\<open>total_count\<close> set and \<^verbatim>\<open>probs\<close>, \<^verbatim>\<open>logits\<close>, \<^verbatim>\<open>mu\<close> and \<^verbatim>\<open>theta\<close> all
  unset, the exclusivity test passes, \<^verbatim>\<open>using_param_1\<close> is false, and the constructor
  takes the \<^verbatim>\<open>mu\<close>/\<^verbatim>\<open>theta\<close> branch with both absent: the failure is the one of
  \<^verbatim>\<open>broadcast_all\<close>, not the configuration error.
\<close>

theorem NB_total_count_alone:
  "NB_init c (Some tc) None None None None va = Inl BroadcastValueError
   \<and> NB_init c (Some tc) None None None None va \<noteq> Inl ConfigurationError
   \<and> NB_params (Some tc) None None None None = NB_param_2 None None"
  by (simp add: NB_init_def NB_params_def NB_param_2_def broadcast_all_def)

text \<open>
  The exclusivity test in full. A call that gives no complete family (neither \<^verbatim>\<open>mu\<close> with
  \<^verbatim>\<open>theta\<close>, nor \<^verbatim>\<open>total_count\<close> with \<^verbatim>\<open>probs\<close> or \<^verbatim>\<open>logits\<close>) never returns an object: it
  fails with the configuration error or in \<^verbatim>\<open>broadcast_all\<close>. The configuration error is
  raised exactly when \<^verbatim>\<open>mu\<close> and \<^verbatim>\<open>total_count\<close> are both set or both unset.
\<close>

lemma NB_init_no_complete_family:
  assumes "\<not> (m \<noteq> None \<and> t \<noteq> None)" and "\<not> (tc \<noteq> None \<and> (p \<noteq> None \<or> l \<noteq> None))"
  shows "NB_init c tc p l m t va = Inl ConfigurationError
       \<or> NB_init c tc p l m t va = Inl BroadcastValueError"
  using assms
  by (cases m; cases tc; cases t; cases p; cases l)
     (simp_all add: NB_init_def NB_params_def NB_param_2_def broadcast_all_def)

lemma NB_init_ConfigurationError_iff:
  "NB_init c tc p l m t va = Inl ConfigurationError \<longleftrightarrow> (m = None) = (tc = None)"
proof
  assume r: "NB_init c tc p l m t va = Inl ConfigurationError"
  show "(m = None) = (tc = None)"
  proof (rule ccontr)
    assume n: "(m = None) \<noteq> (tc = None)"
    have "NB_params tc p l m t \<noteq> Inl ConfigurationError"
      by (auto simp: NB_params_def NB_param_1_def NB_param_2_def broadcast_all_def
            broadcast_tensors_def from_nb_params1_to_2_def tbin_def Let_def
            split: option.splits sum.splits if_splits)
    with r n show False
      by (auto simp: NB_init_cases split: sum.splits prod.splits if_splits)
  qed
next
  assume "(m = None) = (tc = None)"
  then show "NB_init c tc p l m t va = Inl ConfigurationError" by (simp add: NB_init_def)
qed

lemma broadcast_all_not_ConfigurationError: "broadcast_all vs \<noteq> Inl ConfigurationError"
  by (simp add: broadcast_all_def broadcast_tensors_def Let_def)

lemma ZINB_init_ConfigurationError_iff:
  "ZINB_init tc p l m t zl va = Inl ConfigurationError \<longleftrightarrow> (m = None) = (tc = None)"
proof -
  have "ZINB_init tc p l m t zl va = Inl ConfigurationError
          \<longleftrightarrow> NB_init ZINB_cls tc p l m t va = Inl ConfigurationError"
    using broadcast_all_not_ConfigurationError
    by (auto simp: ZINB_init_def split: sum.splits)
  then show ?thesis by (simp add: NB_init_ConfigurationError_iff)
qed

text \<open>
  Against claim C1 as stated. A parameterization family is \<^verbatim>\<open>mu\<close> with \<^verbatim>\<open>theta\<close>, or
  \<^verbatim>\<open>total_count\<close> with \<^verbatim>\<open>probs\<close> or \<^verbatim>\<open>logits\<close>. A call with \<^verbatim>\<open>mu\<close> alone, and a call with
  \<^verbatim>\<open>total_count\<close> and \<^verbatim>\<open>theta\<close>, give neither family, and neither raises the configuration
  error: both pass the test of line 75 and fail in \<^verbatim>\<open>broadcast_all\<close>.
\<close>

theorem NB_incomplete_family_counterexample:
  "NB_init NB_cls None None None (Some [Fin 1]) None True = Inl BroadcastValueError
   \<and> NB_init NB_cls (Some [Fin 1]) None None None (Some [Fin 1]) True = Inl BroadcastValueError"
  by (simp add: eval_defs)

text \<open>
  Claim C1, amended. The constructors of \<^verbatim>\<open>NB\<close> and of \<^verbatim>\<open>ZINB\<close> raise the configuration
  error exactly when \<^verbatim>\<open>mu\<close> and \<^verbatim>\<open>total_count\<close> are both set or both unset. This is so when
  both families are given in full, and when no argument is given. A call that gives no
  complete family never returns an object, but its error is the configuration error only
  in the former case and the error of \<^verbatim>\<open>broadcast_all\<close> otherwise.
\<close>

theorem NB_configuration_error_exactly:
  "(NB_init c tc p l m t va = Inl ConfigurationError \<longleftrightarrow> (m = None) = (tc = None))
   \<and> (ZINB_init tc p l m t zl va = Inl ConfigurationError \<longleftrightarrow> (m = None) = (tc = None))
   \<and> (m \<noteq> None \<and> t \<noteq> None \<and> tc \<noteq> None \<and> (p \<noteq> None \<or> l \<noteq> None)
        \<longrightarrow> NB_init c tc p l m t va = Inl ConfigurationError)
   \<and> (m = None \<and> t = None \<and> tc = None \<and> p = None \<and> l = None
        \<longrightarrow> NB_init c tc p l m t va = Inl ConfigurationError)
   \<and> (\<not> (m \<noteq> None \<and> t \<noteq> None) \<and> \<not> (tc \<noteq> None \<and> (p \<noteq> None \<or> l \<noteq> None))
        \<longrightarrow> NB_init c tc p l m t va = Inl ConfigurationError
          \<or> NB_init c tc p l m t va = Inl BroadcastValueError)"
proof -
  have a: "NB_init c tc p l m t va = Inl ConfigurationError \<longleftrightarrow> (m = None) = (tc = None)"
    by (rule NB_init_ConfigurationError_iff)
  have b: "ZINB_init tc p l m t zl va = Inl ConfigurationError \<longleftrightarrow> (m = None) = (tc = None)"
    by (rule ZINB_init_ConfigurationError_iff)
  have d: "\<not> (m \<noteq> None \<and> t \<noteq> None) \<and> \<not> (tc \<noteq> None \<and> (p \<noteq> None \<or> l \<noteq> None))
        \<longrightarrow> NB_init c tc p l m t va = Inl ConfigurationError
          \<or> NB_init c tc p l m t va = Inl BroadcastValueError"
    using NB_init_no_complete_family[of m t tc p l c va] by blast
  from a b d show ?thesis by auto
qed

theorem NB_configuration_error_exactly_witness:
  "NB_init NB_cls (Some [Fin 2]) None (Some [Fin 0]) (Some [Fin 1]) (Some [Fin 1]) True
     = Inl ConfigurationError
   \<and> ZINB_init (Some [Fin 2]) None (Some [Fin 0]) (Some [Fin 1]) (Some [Fin 1]) (Some [Fin 0]) True
     = Inl ConfigurationError
   \<and> NB_init NB_cls None None None None None True = Inl ConfigurationError
   \<and> NB_init NB_cls None None None (Some [Fin 1]) (Some [Fin 1]) True \<noteq> Inl ConfigurationError
   \<and> NB_init NB_cls None None None (Some [Fin 1]) None True \<noteq> Inl ConfigurationError"
  using NB_configuration_error_exactly
          [of NB_cls "Some [Fin 2]" None "Some [Fin 0]" "Some [Fin 1]" "Some [Fin 1]" True "Some [Fin 0]"]
        NB_configuration_error_exactly
          [of NB_cls None None None None None True None]
        NB_configuration_error_exactly
          [of NB_cls None None None "Some [Fin 1]" "Some [Fin 1]" True None]
        NB_configuration_error_exactly
          [of NB_cls None None None "Some [Fin 1]" None True None]
  by simp

section \<open>The converters\<close>

lemma from_nb_params1_to_2_same:
  assumes "length tc = length lg"
  shows "from_nb_params1_to_2 tc lg = Inr (map2 fmul (map fexp lg) tc, tc)"
  using assms by (simp add: from_nb_params1_to_2_def tbin_same)

lemma from_nb_params2_to_1_same:
  assumes "length m = length t"
  shows "from_nb_params2_to_1 (Some m) (Some t) e
           = Inr (t, map2 fsub (map flog (map (\<lambda>x. fadd x (Fin e)) m))
                               (map flog (map (\<lambda>x. fadd x (Fin e)) t)))"
  using assms by (simp add: from_nb_params2_to_1_def tbin_same del: map_map)

text \<open>
  Claim C4. On tensors of one shape the converters compute the stated formulas elementwise
  and nothing else: \<^verbatim>\<open>from_nb_params1_to_2(total_count, logits)\<close> returns
  \<^verbatim>\<open>theta = total_count\<close> and \<^verbatim>\<open>mu = exp(logits) * theta\<close>, and
  \<^verbatim>\<open>from_nb_params2_to_1(mu, theta, eps)\<close> returns \<^verbatim>\<open>total_count = theta\<close> and
  \<^verbatim>\<open>logits = log(mu + eps) - log(theta + eps)\<close>. At finite elements these are the real
  numbers \<open>exp a * b\<close> and, the logarithms being taken of positive numbers,
  \<open>ln (a + eps) - ln (b + eps)\<close>. Both are functions of their arguments alone.
\<close>

theorem converters_elementwise:
  assumes "length tc = length lg" and "length m = length t"
  shows "\<exists>mu' lg'.
      from_nb_params1_to_2 tc lg = Inr (mu', tc) \<and> length mu' = length tc
    \<and> (\<forall>i<length tc. mu' ! i = fmul (fexp (lg ! i)) (tc ! i))
    \<and> (\<forall>i<length tc. \<forall>a b. lg ! i = Fin a \<and> tc ! i = Fin b \<longrightarrow> mu' ! i = Fin (exp a * b))
    \<and> from_nb_params2_to_1 (Some m) (Some t) e = Inr (t, lg') \<and> length lg' = length t
    \<and> (\<forall>i<length t. lg' ! i = fsub (flog (fadd (m ! i) (Fin e))) (flog (fadd (t ! i) (Fin e))))
    \<and> (\<forall>i<length t. \<forall>a b. m ! i = Fin a \<and> t ! i = Fin b \<and> 0 < a + e \<and> 0 < b + e
           \<longrightarrow> lg' ! i = Fin (ln (a + e) - ln (b + e)))"
proof -
  let ?mu = "map2 fmul (map fexp lg) tc"
  let ?lg = "map2 fsub (map flog (map (\<lambda>x. fadd x (Fin e)) m)) (map flog (map (\<lambda>x. fadd x (Fin e)) t))"
  have a1: "from_nb_params1_to_2 tc lg = Inr (?mu, tc)"
    by (rule from_nb_params1_to_2_same[OF assms(1)])
  have a2: "length ?mu = length tc" using assms(1) by simp
  have a3: "\<forall>i<length tc. ?mu ! i = fmul (fexp (lg ! i)) (tc ! i)"
    using assms(1) by simp
  have a4: "\<forall>i<length tc. \<forall>a b. lg ! i = Fin a \<and> tc ! i = Fin b \<longrightarrow> ?mu ! i = Fin (exp a * b)"
    using assms(1) by simp
  have b1: "from_nb_params2_to_1 (Some m) (Some t) e = Inr (t, ?lg)"
    by (rule from_nb_params2_to_1_same[OF assms(2)])
  have b2: "length ?lg = length t" using assms(2) by simp
  have b3: "\<forall>i<length t. ?lg ! i = fsub (flog (fadd (m ! i) (Fin e))) (flog (fadd (t ! i) (Fin e)))"
    using assms(2) by simp
  have b4: "\<forall>i<length t. \<forall>a b. m ! i = Fin a \<and> t ! i = Fin b \<and> 0 < a + e \<and> 0 < b + e
           \<longrightarrow> ?lg ! i = Fin (ln (a + e) - ln (b + e))"
    using assms(2) by (simp add: fsub_def)
  from a1 a2 a3 a4 b1 b2 b3 b4 show ?thesis by blast
qed

theorem converters_elementwise_witness:
  "\<exists>mu' lg'.
      from_nb_params1_to_2 [Fin 2, Fin 3] [Fin 0, Fin 1] = Inr (mu', [Fin 2, Fin 3])
    \<and> mu' ! 0 = Fin 2 \<and> mu' ! 1 = Fin (exp 1 * 3)
    \<and> from_nb_params2_to_1 (Some [Fin 1]) (Some [Fin 3]) 1 = Inr ([Fin 3], lg')
    \<and> lg' ! 0 = Fin (ln 2 - ln 4)"
proof -
  from converters_elementwise[of "[Fin 2, Fin 3]" "[Fin 0, Fin 1]" "[Fin 1]" "[Fin 3]" 1]
  obtain mu' lg' where
    a: "from_nb_params1_to_2 [Fin 2, Fin 3] [Fin 0, Fin 1] = Inr (mu', [Fin 2, Fin 3])"
    and b: "\<forall>i<length [Fin 2, Fin 3]. \<forall>a b. [Fin 0, Fin 1] ! i = Fin a \<and> [Fin 2, Fin 3] ! i = Fin b
               \<longrightarrow> mu' ! i = Fin (exp a * b)"
    and c: "from_nb_params2_to_1 (Some [Fin 1]) (Some [Fin 3]) 1 = Inr ([Fin 3], lg')"
    and d: "\<forall>i<length [Fin 3]. \<forall>a b. [Fin 1] ! i = Fin a \<and> [Fin 3] ! i = Fin b \<and> 0 < a + 1 \<and> 0 < b + 1
               \<longrightarrow> lg' ! i = Fin (ln (a + 1) - ln (b + 1))"
    by auto
  from b have "mu' ! 0 = Fin 2" by (auto dest: spec[of _ 0])
  moreover from b have "mu' ! 1 = Fin (exp 1 * 3)" by (auto dest: spec[of _ 1])
  moreover from d have "lg' ! 0 = Fin (ln 2 - ln 4)" by (auto dest: spec[of _ 0])
  ultimately show ?thesis using a c by blast
qed

section \<open>Log-probability\<close>

lemma nonnegative_integer_iff: "nonnegative_integer x \<longleftrightarrow> (\<exists>n::nat. x = Fin (real n))"
proof (cases x)
  case (Fin a)
  have "(frac a = 0 \<and> 0 \<le> a) \<longleftrightarrow> (\<exists>n::nat. a = real n)"
  proof
    assume h: "frac a = 0 \<and> 0 \<le> a"
    then have "a \<in> \<int>" by (simp add: frac_eq_0_iff)
    then obtain k :: int where k: "a = of_int k" by (auto elim: Ints_cases)
    with h have "0 \<le> k" by simp
    then have "a = real (nat k)" using k by simp
    then show "\<exists>n::nat. a = real n" ..
  next
    assume "\<exists>n::nat. a = real n"
    then show "frac a = 0 \<and> 0 \<le> a" by auto
  qed
  with Fin show ?thesis by (simp add: nonnegative_integer_def)
qed (simp_all add: nonnegative_integer_def)

lemma validate_sample_iff:
  "validate_sample v = (if \<exists>x\<in>set v. \<forall>n::nat. x \<noteq> Fin (real n) then Some DomainError else None)"
  by (auto simp: validate_sample_def list_all_iff nonnegative_integer_iff)

text \<open>
  Claim C6. For an \<^verbatim>\<open>NB\<close> object as its constructor builds it: with validation enabled,
  \<^verbatim>\<open>log_prob(value)\<close> raises the domain error when some element of \<^verbatim>\<open>value\<close> is not a
  non-negative integer (negative, fractional, infinite or NaN), and returns the kernel
  \<^verbatim>\<open>log_nb_positive(value, mu, theta, eps)\<close> with \<^verbatim>\<open>eps = 1e-8\<close> otherwise; with validation
  disabled the kernel result is returned for every value.
\<close>

theorem NB_log_prob_validation:
  assumes "NB_init c tc p l m t va = Inr nb"
  shows "NB_log_prob K nb v =
           (if va \<and> (\<exists>x\<in>set v. \<forall>n::nat. x \<noteq> Fin (real n)) then Inl DomainError
            else Inr (K v (mu nb) (theta nb) (1 / 10 ^ 8)))"
proof -
  from NB_init_Inr[OF assms] have e: "NB_eps nb = 1 / 10 ^ 8" and v: "validate_args nb = va"
    by blast+
  show ?thesis
    unfolding NB_log_prob_def e v by (simp add: validate_sample_iff)
qed

theorem NB_log_prob_validation_witness:
  "NB_log_prob (\<lambda>v m t e. (v, m, t, e)) \<lparr>NB_eps = 1 / 10 ^ 8, mu = [Fin 3], theta = [Fin 4], validate_args = True\<rparr>
       [Fin (-1)] = Inl DomainError
   \<and> NB_log_prob (\<lambda>v m t e. (v, m, t, e)) \<lparr>NB_eps = 1 / 10 ^ 8, mu = [Fin 3], theta = [Fin 4], validate_args = True\<rparr>
       [Fin (1 / 2)] = Inl DomainError
   \<and> NB_log_prob (\<lambda>v m t e. (v, m, t, e)) \<lparr>NB_eps = 1 / 10 ^ 8, mu = [Fin 3], theta = [Fin 4], validate_args = True\<rparr>
       [Fin 0] = Inr ((\<lambda>v m t e. (v, m, t, e)) [Fin 0] [Fin 3] [Fin 4] (1 / 10 ^ 8))
   \<and> NB_log_prob (\<lambda>v m t e. (v, m, t, e)) \<lparr>NB_eps = 1 / 10 ^ 8, mu = [Fin 3], theta = [Fin 4], validate_args = False\<rparr>
       [Fin (-1)] = Inr ((\<lambda>v m t e. (v, m, t, e)) [Fin (-1)] [Fin 3] [Fin 4] (1 / 10 ^ 8))"
proof -
  have i1: "NB_init NB_cls None None None (Some [Fin 3]) (Some [Fin 4]) True
         = Inr \<lparr>NB_eps = 1 / 10 ^ 8, mu = [Fin 3], theta = [Fin 4], validate_args = True\<rparr>"
    by (simp add: eval_defs)
  have i2: "NB_init NB_cls None None None (Some [Fin 3]) (Some [Fin 4]) False
         = Inr \<lparr>NB_eps = 1 / 10 ^ 8, mu = [Fin 3], theta = [Fin 4], validate_args = False\<rparr>"
    by (simp add: eval_defs)
  have n1: "\<forall>n::nat. Fin (- 1) \<noteq> Fin (real n)" by simp
  have n2: "\<forall>n::nat. Fin (1 / 2) \<noteq> Fin (real n)"
  proof
    fix n :: nat
    have "real n \<noteq> 1 / 2"
    proof
      assume "real n = 1 / 2"
      then have "real (2 * n) = real 1" by simp
      then have "2 * n = 1" by (simp only: of_nat_eq_iff)
      then show False by presburger
    qed
    then show "Fin (1 / 2) \<noteq> Fin (real n)" by simp
  qed
  have n3: "\<exists>n::nat. Fin 0 = Fin (real n)" by (rule exI[of _ 0]) simp
  show ?thesis
    using NB_log_prob_validation[OF i1, of "(\<lambda>v m t e. (v, m, t, e))" "[Fin (-1)]"]
          NB_log_prob_validation[OF i1, of "(\<lambda>v m t e. (v, m, t, e))" "[Fin (1 / 2)]"]
          NB_log_prob_validation[OF i1, of "(\<lambda>v m t e. (v, m, t, e))" "[Fin 0]"]
          NB_log_prob_validation[OF i2, of "(\<lambda>v m t e. (v, m, t, e))" "[Fin (-1)]"]
          n1 n2 n3
    by simp
qed


section \<open>Sampling\<close>

lemma greater_than_0: "greater_than 0 = flt (Fin 0)"
  by (rule ext) (simp add: greater_than_def)

lemma greater_than_eq_0: "greater_than_eq 0 = fle (Fin 0)"
  by (rule ext) (simp add: greater_than_eq_def)

lemma Gamma_init_same:
  assumes "length c = length r"
  shows "Gamma_init dv c r =
     (if dv \<and> \<not> (list_all (flt (Fin 0)) c \<and> list_all (flt (Fin 0)) r) then Inl DomainError
      else Inr (c, r))"
  using assms
  by (simp add: Gamma_init_def broadcast_all_Some2 broadcast_tensors_same2 greater_than_0)

lemma Poisson_init_eq:
  "Poisson_init dv r = (if dv \<and> \<not> list_all (fle (Fin 0)) r then Inl DomainError else Inr r)"
  by (simp add: Poisson_init_def greater_than_eq_0)

lemma NB_gamma_same:
  assumes "length (mu nb) = length (theta nb)"
  shows "NB_gamma rnd dv nb =
     (if dv \<and> \<not> (list_all (flt (Fin 0)) (theta nb)
                  \<and> list_all (flt (Fin 0)) (map2 (fdiv rnd) (theta nb) (mu nb)))
      then Inl DomainError
      else Inr (theta nb, map2 (fdiv rnd) (theta nb) (mu nb)))"
  using assms
  by (simp add: NB_gamma_def tbin_same Gamma_init_same)

lemma batch_width_same:
  "length (mu nb) = length (theta nb) \<Longrightarrow> batch_width nb = length (theta nb)"
  by (simp add: batch_width_def broadcast_tensors_same2)

lemma clamp_max_Fin: "clamp_max m (Fin x) = Fin (min x m)"
  by (simp add: min_def)

lemma NB_sample_same:
  assumes "length (mu nb) = length (theta nb)"
  shows "NB_sample rnd dv G P nb shape =
     (let rate = map2 (fdiv rnd) (theta nb) (mu nb);
          b = length (theta nb);
          l_train = map (\<lambda>j. clamp_max (10 ^ 8) (G j (theta nb ! (j mod b)) (rate ! (j mod b))))
                      [0 ..< prod_list shape * b]
      in if dv \<and> \<not> (list_all (flt (Fin 0)) (theta nb) \<and> list_all (flt (Fin 0)) rate)
         then Inl DomainError
         else if dv \<and> \<not> list_all (fle (Fin 0)) l_train then Inl DomainError
         else Inr (map (\<lambda>j. P j (l_train ! j)) [0 ..< length l_train]))"
  by (simp add: NB_sample_def NB_gamma_same[OF assms] Gamma_sample_def Poisson_init_eq
        Poisson_sample_def Let_def o_def)

text \<open>
  Claim C2. For an \<^verbatim>\<open>NB\<close> object whose \<^verbatim>\<open>mu\<close> and \<^verbatim>\<open>theta\<close> have one shape, \<^verbatim>\<open>sample\<close>
  builds the Gamma distribution of concentration \<^verbatim>\<open>theta\<close> and rate \<^verbatim>\<open>theta / mu\<close>, the
  rounded quotient \<open>a / b\<close> at finite elements with \<open>b\<close> not zero. The latent rates
  \<open>l_train\<close> have the sample shape followed by the batch shape, and each is the Gamma draw
  \<open>g\<close> of its element clamped at \<^verbatim>\<open>1e8\<close>: for a finite \<open>g\<close> it is \<open>min g 1e8\<close>. These are the
  rates given to the Poisson stage, and the sample is the Poisson draw at each of them.
  The sample fails instead, with the validation error of the library, exactly when the
  library validates and rejects the Gamma parameters or the Poisson rates.
\<close>

theorem NB_sample_gamma_clamp_poisson:
  assumes "length (mu nb) = length (theta nb)"
  shows "\<exists>rate l_train.
      length rate = length (theta nb)
    \<and> (\<forall>i<length (theta nb). rate ! i = fdiv rnd (theta nb ! i) (mu nb ! i))
    \<and> (\<forall>i<length (theta nb). \<forall>a b. theta nb ! i = Fin a \<and> mu nb ! i = Fin b \<and> b \<noteq> 0
           \<longrightarrow> rate ! i = rnd (a / b))
    \<and> length l_train = prod_list shape * length (theta nb)
    \<and> (\<forall>j<length l_train.
          l_train ! j = clamp_max (10 ^ 8)
            (G j (theta nb ! (j mod length (theta nb))) (rate ! (j mod length (theta nb)))))
    \<and> (\<forall>j<length l_train. \<forall>g.
          G j (theta nb ! (j mod length (theta nb))) (rate ! (j mod length (theta nb))) = Fin g
           \<longrightarrow> l_train ! j = Fin (min g (10 ^ 8)))
    \<and> NB_sample rnd dv G P nb shape =
        (if dv \<and> \<not> (list_all (flt (Fin 0)) (theta nb) \<and> list_all (flt (Fin 0)) rate)
         then Inl DomainError
         else if dv \<and> \<not> list_all (fle (Fin 0)) l_train then Inl DomainError
         else Inr (map (\<lambda>j. P j (l_train ! j)) [0 ..< length l_train]))"
proof -
  let ?b = "length (theta nb)"
  let ?rate = "map2 (fdiv rnd) (theta nb) (mu nb)"
  let ?l = "map (\<lambda>j. clamp_max (10 ^ 8) (G j (theta nb ! (j mod ?b)) (?rate ! (j mod ?b))))
              [0 ..< prod_list shape * ?b]"
  have r1: "length ?rate = ?b" using assms by simp
  have r2: "\<forall>i<?b. ?rate ! i = fdiv rnd (theta nb ! i) (mu nb ! i)" using assms by simp
  have r3: "\<forall>i<?b. \<forall>a b. theta nb ! i = Fin a \<and> mu nb ! i = Fin b \<and> b \<noteq> 0
              \<longrightarrow> ?rate ! i = rnd (a / b)"
    using assms by simp
  have l1: "length ?l = prod_list shape * ?b" by simp
  have l2: "\<forall>j<length ?l. ?l ! j = clamp_max (10 ^ 8)
              (G j (theta nb ! (j mod ?b)) (?rate ! (j mod ?b)))"
    by simp
  have l3: "\<forall>j<length ?l. \<forall>g. G j (theta nb ! (j mod ?b)) (?rate ! (j mod ?b)) = Fin g
              \<longrightarrow> ?l ! j = Fin (min g (10 ^ 8))"
    by (simp add: clamp_max_Fin)
  have s: "NB_sample rnd dv G P nb shape =
        (if dv \<and> \<not> (list_all (flt (Fin 0)) (theta nb) \<and> list_all (flt (Fin 0)) ?rate)
         then Inl DomainError
         else if dv \<and> \<not> list_all (fle (Fin 0)) ?l then Inl DomainError
         else Inr (map (\<lambda>j. P j (?l ! j)) [0 ..< length ?l]))"
    using NB_sample_same[OF assms, of rnd dv G P shape] by (simp add: Let_def)
  from r1 r2 r3 l1 l2 l3 s show ?thesis by blast
qed

theorem NB_sample_gamma_clamp_poisson_witness:
  "NB_sample Fin True (\<lambda>j c r. Fin (10 ^ 9)) (\<lambda>j l. l)
      \<lparr>NB_eps = 1 / 10 ^ 8, mu = [Fin 2], theta = [Fin 1], validate_args = True\<rparr> [2]
     = Inr [Fin (10 ^ 8), Fin (10 ^ 8)]
   \<and> NB_sample Fin True (\<lambda>j c r. Fin (10 ^ 9)) (\<lambda>j l. l)
      \<lparr>NB_eps = 1 / 10 ^ 8, mu = [Fin 2], theta = [Fin 0], validate_args = True\<rparr> [2]
     = Inl DomainError"
proof -
  let ?nb = "\<lparr>NB_eps = 1 / 10 ^ 8, mu = [Fin 2], theta = [Fin 1], validate_args = True\<rparr>"
  let ?nbz = "\<lparr>NB_eps = 1 / 10 ^ 8, mu = [Fin 2], theta = [Fin 0], validate_args = True\<rparr>"
  let ?G = "\<lambda>(j::nat) (c::fl) (r::fl). Fin (10 ^ 9)"
  let ?P = "\<lambda>(j::nat) (l::fl). l"
  from NB_sample_gamma_clamp_poisson[where nb = ?nb and rnd = Fin and shape = "[2]" and G = ?G
         and dv = True and P = ?P]
  obtain rate l_train where
    r1: "length rate = 1" and r3: "rate ! 0 = Fin (1 / 2)"
    and l1: "length l_train = 2"
    and l3: "\<forall>j<length l_train. l_train ! j = Fin (10 ^ 8)"
    and s: "NB_sample Fin True ?G ?P ?nb [2] =
        (if \<not> (list_all (flt (Fin 0)) [Fin 1] \<and> list_all (flt (Fin 0)) rate)
         then Inl DomainError
         else if \<not> list_all (fle (Fin 0)) l_train then Inl DomainError
         else Inr (map (\<lambda>j. l_train ! j) [0 ..< length l_train]))"
    by auto
  from r1 r3 have rate: "rate = [Fin (1 / 2)]"
    by (cases rate) simp_all
  from l1 l3 have lt: "l_train = [Fin (10 ^ 8), Fin (10 ^ 8)]"
    by (intro nth_equalityI) (auto simp: nth_Cons')
  have a: "NB_sample Fin True ?G ?P ?nb [2] = Inr [Fin (10 ^ 8), Fin (10 ^ 8)]"
    unfolding s rate lt by (simp add: upt_conv_Cons)
  from NB_sample_gamma_clamp_poisson[where nb = ?nbz and rnd = Fin and shape = "[2]" and G = ?G
         and dv = True and P = ?P]
  have b: "NB_sample Fin True ?G ?P ?nbz [2] = Inl DomainError"
    by auto
  from a b show ?thesis by simp
qed

text \<open>
  Claim C10. The constructor with validation enabled accepts every finite \<^verbatim>\<open>mu\<close> and
  \<^verbatim>\<open>theta\<close> whose elements are at least zero, zero included. \<^verbatim>\<open>_gamma\<close> then divides
  \<^verbatim>\<open>theta\<close> by \<^verbatim>\<open>mu\<close> with no guard. Where \<^verbatim>\<open>mu\<close> is positive the rate is the rounded
  quotient. Where \<^verbatim>\<open>mu\<close> is zero the division is a division by zero: the rate is an
  infinity, or NaN when \<^verbatim>\<open>theta\<close> is zero too. So a rate that is a finite number requires
  \<^verbatim>\<open>mu\<close> strictly positive, more than the constructor asks. What \<^verbatim>\<open>_gamma\<close> returns is
  decided by the \<^verbatim>\<open>Gamma\<close> constructor, and when that validates, \<^verbatim>\<open>mu\<close> and \<^verbatim>\<open>theta\<close> both
  zero at an element make \<^verbatim>\<open>_gamma\<close> fail.
\<close>

theorem NB_gamma_division_unguarded:
  assumes "length ms = length ts" and "\<forall>x\<in>set ms. 0 \<le> x" and "\<forall>x\<in>set ts. 0 \<le> x"
  shows "NB_init c None None None (Some (map Fin ms)) (Some (map Fin ts)) True
           = Inr \<lparr>NB_eps = 1 / 10 ^ 8, mu = map Fin ms, theta = map Fin ts, validate_args = True\<rparr>
       \<and> (\<exists>rate. tbin (fdiv rnd) (map Fin ts) (map Fin ms) = Inr rate
             \<and> length rate = length ms
             \<and> (\<forall>i<length ms. 0 < ms ! i \<longrightarrow> rate ! i = rnd (ts ! i / ms ! i))
             \<and> (\<forall>i<length ms. ms ! i = 0 \<longrightarrow>
                    \<not> is_finite (rate ! i) \<and> (ts ! i = 0 \<longrightarrow> rate ! i = NaN)
                    \<and> (0 < ts ! i \<longrightarrow> rate ! i = PInf \<or> rate ! i = NInf))
             \<and> (\<forall>i<length ms. is_finite (rate ! i) \<longrightarrow> 0 < ms ! i)
             \<and> NB_gamma rnd dv \<lparr>NB_eps = 1 / 10 ^ 8, mu = map Fin ms, theta = map Fin ts,
                                 validate_args = True\<rparr>
                 = (if dv \<and> \<not> (list_all (flt (Fin 0)) (map Fin ts) \<and> list_all (flt (Fin 0)) rate)
                    then Inl DomainError else Inr (map Fin ts, rate))
             \<and> (dv \<and> (\<exists>i<length ms. ms ! i = 0 \<and> ts ! i = 0)
                  \<longrightarrow> NB_gamma rnd dv \<lparr>NB_eps = 1 / 10 ^ 8, mu = map Fin ms, theta = map Fin ts,
                                         validate_args = True\<rparr> = Inl DomainError))"
proof -
  let ?nb = "\<lparr>NB_eps = 1 / 10 ^ 8, mu = map Fin ms, theta = map Fin ts, validate_args = True\<rparr>"
  let ?rate = "map2 (fdiv rnd) (map Fin ts) (map Fin ms)"
  have par: "NB_params None None None (Some (map Fin ms)) (Some (map Fin ts)) = Inr (map Fin ms, map Fin ts)"
    using assms(1)
    by (simp add: NB_params_def NB_param_2_def broadcast_all_Some2 broadcast_tensors_same2)
  have ok: "list_all (fle (Fin 0)) (map Fin ms)" "list_all (fle (Fin 0)) (map Fin ts)"
    using assms(2,3) by (simp_all add: list_all_iff)
  have init: "NB_init c None None None (Some (map Fin ms)) (Some (map Fin ts)) True = Inr ?nb"
    by (simp add: NB_init_cases par ok)
  have t: "tbin (fdiv rnd) (map Fin ts) (map Fin ms) = Inr ?rate"
    using assms(1) by (simp add: tbin_same)
  have len: "length ?rate = length ms" using assms(1) by simp
  have el: "?rate ! i = fdiv rnd (Fin (ts ! i)) (Fin (ms ! i))" if "i < length ms" for i
    using that assms(1) by simp
  have pos: "\<forall>i<length ms. 0 < ms ! i \<longrightarrow> ?rate ! i = rnd (ts ! i / ms ! i)"
    by (simp add: el)
  have zero: "\<forall>i<length ms. ms ! i = 0 \<longrightarrow> ?rate ! i = (if ts ! i = 0 then NaN else PInf)"
  proof (intro allI impI)
    fix i assume i: "i < length ms" and z: "ms ! i = 0"
    from i have "0 \<le> ts ! i" using assms(1,3) by (simp add: all_set_conv_all_nth)
    then show "?rate ! i = (if ts ! i = 0 then NaN else PInf)"
      using z by (auto simp: el[OF i])
  qed
  have fin: "\<forall>i<length ms. is_finite (?rate ! i) \<longrightarrow> 0 < ms ! i"
  proof (intro allI impI)
    fix i assume i: "i < length ms" and f: "is_finite (?rate ! i)"
    from i have m: "0 \<le> ms ! i" using assms(2) by (simp add: all_set_conv_all_nth)
    show "0 < ms ! i"
    proof (rule ccontr)
      assume "\<not> 0 < ms ! i"
      with m have "ms ! i = 0" by simp
      with zero i have "?rate ! i = (if ts ! i = 0 then NaN else PInf)" by blast
      with f show False by (simp split: if_splits)
    qed
  qed
  have g: "NB_gamma rnd dv ?nb =
      (if dv \<and> \<not> (list_all (flt (Fin 0)) (map Fin ts) \<and> list_all (flt (Fin 0)) ?rate)
       then Inl DomainError else Inr (map Fin ts, ?rate))"
    using NB_gamma_same[of ?nb rnd dv] assms(1) by simp
  have err: "dv \<and> (\<exists>i<length ms. ms ! i = 0 \<and> ts ! i = 0) \<longrightarrow> NB_gamma rnd dv ?nb = Inl DomainError"
  proof
    assume h: "dv \<and> (\<exists>i<length ms. ms ! i = 0 \<and> ts ! i = 0)"
    then obtain i where i: "i < length ms" and "ts ! i = 0" by blast
    then have "i < length (map Fin ts) \<and> \<not> flt (Fin 0) (map Fin ts ! i)" using assms(1) by simp
    then have "\<not> list_all (flt (Fin 0)) (map Fin ts)" unfolding list_all_length by blast
    with h show "NB_gamma rnd dv ?nb = Inl DomainError" unfolding g by simp
  qed
  have zrob: "\<forall>i<length ms. ms ! i = 0 \<longrightarrow>
                    \<not> is_finite (?rate ! i) \<and> (ts ! i = 0 \<longrightarrow> ?rate ! i = NaN)
                    \<and> (0 < ts ! i \<longrightarrow> ?rate ! i = PInf \<or> ?rate ! i = NInf)"
  proof (intro allI impI)
    fix i assume i: "i < length ms" and z: "ms ! i = 0"
    with zero have "?rate ! i = (if ts ! i = 0 then NaN else PInf)" by blast
    then show "\<not> is_finite (?rate ! i) \<and> (ts ! i = 0 \<longrightarrow> ?rate ! i = NaN)
                 \<and> (0 < ts ! i \<longrightarrow> ?rate ! i = PInf \<or> ?rate ! i = NInf)"
      by (simp split: if_splits)
  qed
  from init t len pos zrob fin g err show ?thesis by blast
qed

theorem NB_gamma_division_unguarded_witness:
  "NB_init NB_cls None None None (Some [Fin 0, Fin 2]) (Some [Fin 1, Fin 1]) True
     = Inr \<lparr>NB_eps = 1 / 10 ^ 8, mu = [Fin 0, Fin 2], theta = [Fin 1, Fin 1], validate_args = True\<rparr>
   \<and> tbin (fdiv Fin) [Fin 1, Fin 1] [Fin 0, Fin 2] = Inr [PInf, Fin (1 / 2)]
   \<and> NB_init NB_cls None None None (Some [Fin 0]) (Some [Fin 0]) True
     = Inr \<lparr>NB_eps = 1 / 10 ^ 8, mu = [Fin 0], theta = [Fin 0], validate_args = True\<rparr>
   \<and> NB_gamma Fin True \<lparr>NB_eps = 1 / 10 ^ 8, mu = [Fin 0], theta = [Fin 0], validate_args = True\<rparr>
     = Inl DomainError"
proof -
  from NB_gamma_division_unguarded[where ms = "[0, 2]" and ts = "[1, 1]" and c = NB_cls
         and rnd = Fin and dv = True]
  obtain rate where
    i: "NB_init NB_cls None None None (Some [Fin 0, Fin 2]) (Some [Fin 1, Fin 1]) True
     = Inr \<lparr>NB_eps = 1 / 10 ^ 8, mu = [Fin 0, Fin 2], theta = [Fin 1, Fin 1], validate_args = True\<rparr>"
    and t: "tbin (fdiv Fin) [Fin 1, Fin 1] [Fin 0, Fin 2] = Inr rate"
    by auto
  have r: "tbin (fdiv Fin) [Fin 1, Fin 1] [Fin 0, Fin 2] = Inr [PInf, Fin (1 / 2)]"
    by (simp add: tbin_same)
  from NB_gamma_division_unguarded[where ms = "[0]" and ts = "[0]" and c = NB_cls
         and rnd = Fin and dv = True]
  have "NB_init NB_cls None None None (Some [Fin 0]) (Some [Fin 0]) True
     = Inr \<lparr>NB_eps = 1 / 10 ^ 8, mu = [Fin 0], theta = [Fin 0], validate_args = True\<rparr>
   \<and> NB_gamma Fin True \<lparr>NB_eps = 1 / 10 ^ 8, mu = [Fin 0], theta = [Fin 0], validate_args = True\<rparr>
     = Inl DomainError"
    by auto
  with i r show ?thesis by simp
qed

section \<open>Zero inflation\<close>

lemma ZINB_init_Inr:
  assumes "ZINB_init tc p l m t zl va = Inr z"
  shows "zl \<noteq> None \<and> zi_probs_attr z = None
       \<and> length (mu z) = length (theta z) \<and> length (zi_logits z) = length (theta z)
       \<and> NB_eps z = 1 / 10 ^ 8 \<and> validate_args z = va"
proof -
  from assms obtain nb bs where
    nb: "NB_init ZINB_cls tc p l m t va = Inr nb"
    and bs: "broadcast_all [zl, Some (mu nb), Some (theta nb)] = Inr bs"
    and z: "z = \<lparr>NB_eps = NB_eps nb, mu = bs ! 1, theta = bs ! 2,
                  validate_args = validate_args nb,
                  zi_logits = bs ! 0, zi_probs_attr = None\<rparr>"
    by (auto simp: ZINB_init_def split: sum.splits)
  from bs obtain a where zl: "zl = Some a"
    by (cases zl) (simp_all add: broadcast_all_def)
  with bs have "broadcast_tensors [a, mu nb, theta nb] = Inr bs"
    by (simp add: broadcast_all_def)
  from broadcast_tensors_lengths[OF this]
  have "length (bs ! 1) = length (bs ! 2)" "length (bs ! 0) = length (bs ! 2)"
    by simp_all
  with z zl NB_init_Inr[OF nb] show ?thesis by simp
qed

lemma ZINB_zi_probs_fresh:
  "zi_probs_attr z = None \<Longrightarrow>
   ZINB_zi_probs z = (map sigmoid (zi_logits z), z\<lparr>zi_probs_attr := Some (map sigmoid (zi_logits z))\<rparr>)"
  by (simp add: ZINB_zi_probs_def lazy_property_def logits_to_probs_binary_def Let_def)

lemma ZINB_zi_probs_cached:
  "zi_probs_attr z = Some pr \<Longrightarrow> ZINB_zi_probs z = (pr, z)"
  by (simp add: ZINB_zi_probs_def lazy_property_def)

lemma ZINB_zi_probs_value:
  assumes "zi_probs_attr z = None \<or> zi_probs_attr z = Some (logits_to_probs_binary (zi_logits z))"
  shows "fst (ZINB_zi_probs z) = map sigmoid (zi_logits z)"
  using assms
  by (auto simp: ZINB_zi_probs_fresh ZINB_zi_probs_cached logits_to_probs_binary_def)

text \<open>
  Claim C3. For a \<^verbatim>\<open>ZINB\<close> object with parameters of one shape, whose \<^verbatim>\<open>zi_probs\<close> is not
  yet computed or is the cached sigmoid of \<^verbatim>\<open>zi_logits\<close>: when the base draw is \<open>s\<close>, the
  sample has the shape of \<open>s\<close>, and its element \<open>j\<close> is zero when the uniform draw \<open>U j\<close>
  is at most \<^verbatim>\<open>zi_probs\<close> at the batch index of \<open>j\<close>, and is \<open>s ! j\<close> unchanged otherwise.
\<close>

theorem ZINB_sample_masks_elementwise:
  assumes "length (mu z) = length (theta z)" and "length (zi_logits z) = length (theta z)"
    and "zi_probs_attr z = None \<or> zi_probs_attr z = Some (logits_to_probs_binary (zi_logits z))"
    and "NB_sample rnd dv G P z shape = Inr s" and "j < length s"
  shows "\<exists>out z'. ZINB_sample rnd dv G P U z shape = Inr (out, z')
           \<and> length out = length s
           \<and> fst (ZINB_zi_probs z) = map sigmoid (zi_logits z)
           \<and> out ! j = (if fle (U j) (fst (ZINB_zi_probs z) ! (j mod length (theta z)))
                        then Fin 0 else s ! j)"
proof -
  obtain zp z' where zz: "ZINB_zi_probs z = (zp, z')" by (cases "ZINB_zi_probs z")
  with ZINB_zi_probs_value[OF assms(3)] have zp: "zp = map sigmoid (zi_logits z)" by simp
  then have k: "length zp = length (theta z)" using assms(2) by simp
  let ?out = "map (\<lambda>j. if map (\<lambda>j. fle (map U [0 ..< length s] ! j) (zp ! (j mod length zp)))
                              [0 ..< length s] ! j
                      then Fin 0 else s ! j) [0 ..< length s]"
  have "ZINB_sample rnd dv G P U z shape = Inr (?out, z')"
    by (simp add: ZINB_sample_def assms(4) zz k Let_def batch_width_same[OF assms(1)])
  moreover have "length ?out = length s" by simp
  moreover have "?out ! j = (if fle (U j) (zp ! (j mod length (theta z))) then Fin 0 else s ! j)"
    using assms(5) k by simp
  ultimately show ?thesis using zz zp by auto
qed

lemma ZINB_example_init:
  "ZINB_init None None None (Some [Fin 2]) (Some [Fin 1]) (Some [Fin 0]) True
     = Inr \<lparr>NB_eps = 1 / 10 ^ 8, mu = [Fin 2], theta = [Fin 1], validate_args = True,
            zi_logits = [Fin 0], zi_probs_attr = None\<rparr>"
  by (simp add: eval_defs)

theorem ZINB_sample_masks_elementwise_witness:
  "\<exists>out z'. ZINB_sample Fin True (\<lambda>j c r. Fin 5) (\<lambda>j l. l)
       (\<lambda>j. if j = 0 then Fin (1 / 4) else Fin (3 / 4))
       \<lparr>NB_eps = 1 / 10 ^ 8, mu = [Fin 2], theta = [Fin 1], validate_args = True,
        zi_logits = [Fin 0], zi_probs_attr = None\<rparr> [2] = Inr (out, z')
     \<and> out ! 0 = Fin 0 \<and> out ! 1 = Fin 5"
proof -
  let ?z = "\<lparr>NB_eps = 1 / 10 ^ 8, mu = [Fin 2], theta = [Fin 1], validate_args = True,
        zi_logits = [Fin 0], zi_probs_attr = None\<rparr>"
  let ?G = "\<lambda>(j::nat) (c::fl) (r::fl). Fin 5"
  let ?P = "\<lambda>(j::nat) (l::fl). l"
  let ?U = "\<lambda>j::nat. if j = 0 then Fin (1 / 4) else Fin (3 / 4)"
  have s: "NB_sample Fin True ?G ?P ?z [2] = Inr [Fin 5, Fin 5]"
    by (simp add: NB_sample_same upt_conv_Cons Let_def)
  have zp: "fst (ZINB_zi_probs ?z) = [Fin (1 / 2)]"
    by (simp add: ZINB_zi_probs_fresh)
  from ZINB_sample_masks_elementwise[where z = ?z and rnd = Fin and dv = True and G = ?G
         and P = ?P and shape = "[2]" and s = "[Fin 5, Fin 5]" and j = 0 and U = ?U, OF _ _ _ s]
  obtain out z' where a: "ZINB_sample Fin True ?G ?P ?U ?z [2] = Inr (out, z')"
    and a0: "out ! 0 = Fin 0"
    by (auto simp: zp)
  from ZINB_sample_masks_elementwise[where z = ?z and rnd = Fin and dv = True and G = ?G
         and P = ?P and shape = "[2]" and s = "[Fin 5, Fin 5]" and j = 1 and U = ?U, OF _ _ _ s]
  obtain out' z'' where b: "ZINB_sample Fin True ?G ?P ?U ?z [2] = Inr (out', z'')"
    and b1: "out' ! 1 = Fin 5"
    by (auto simp: zp)
  from a b have "out' = out" by simp
  with a a0 b1 show ?thesis by blast
qed

section \<open>The zero-inflation pair at construction\<close>

lemma ZINB_call_Inr:
  assumes "ZINB_call kwargs va = Inr z"
  shows "map_of kwargs ''zi_probs'' = None
       \<and> ZINB_init (map_of kwargs ''total_count'') (map_of kwargs ''probs'')
             (map_of kwargs ''logits'') (map_of kwargs ''mu'') (map_of kwargs ''theta'')
             (map_of kwargs ''zi_logits'') va = Inr z"
proof -
  from assms have all: "list_all (\<lambda>kv. fst kv \<in> set ZINB_parameters) kwargs"
    and i: "ZINB_init (map_of kwargs ''total_count'') (map_of kwargs ''probs'')
             (map_of kwargs ''logits'') (map_of kwargs ''mu'') (map_of kwargs ''theta'')
             (map_of kwargs ''zi_logits'') va = Inr z"
    by (auto simp: ZINB_call_def split: if_splits)
  have "''zi_probs'' \<notin> set ZINB_parameters" by (simp add: ZINB_parameters_def)
  with all have "''zi_probs'' \<notin> fst ` set kwargs" by (auto simp: list_all_iff)
  then have "map_of kwargs ''zi_probs'' = None" by (simp add: map_of_eq_None_iff)
  with i show ?thesis by simp
qed

text \<open>
  Against claim C7 as stated: a call that supplies \<^verbatim>\<open>zi_probs\<close> instead of \<^verbatim>\<open>zi_logits\<close>
  constructs nothing. The keyword \<^verbatim>\<open>zi_probs\<close> is no parameter of \<^verbatim>\<open>ZINB.__init__\<close>, and
  with \<^verbatim>\<open>zi_logits\<close> left at \<^verbatim>\<open>None\<close> the constructor fails in \<^verbatim>\<open>broadcast_all\<close>.
\<close>

theorem ZINB_zi_probs_alone_counterexample:
  "ZINB_call [(''mu'', [Fin 1]), (''theta'', [Fin 1]), (''zi_probs'', [Fin (1 / 2)])] True
     = Inl TypeError
   \<and> ZINB_init None None None (Some [Fin 1]) (Some [Fin 1]) None True = Inl BroadcastValueError"
  by (simp add: eval_defs)

text \<open>
  Claim C7, amended. Every successful construction was given \<^verbatim>\<open>zi_logits\<close> and was not given
  \<^verbatim>\<open>zi_probs\<close>. The new object holds no \<^verbatim>\<open>zi_probs\<close>; the first read computes it as the
  sigmoid of \<^verbatim>\<open>zi_logits\<close> and stores it in the object; every later read returns the stored
  value and leaves the object as it is, whatever the wrapped function would compute, so the
  conversion runs at most once.
\<close>

theorem ZINB_zi_logits_given_zi_probs_lazy:
  assumes "ZINB_call kwargs va = Inr z"
  shows "map_of kwargs ''zi_logits'' \<noteq> None \<and> map_of kwargs ''zi_probs'' = None
       \<and> zi_probs_attr z = None
       \<and> (\<exists>pr z1. ZINB_zi_probs z = (pr, z1)
             \<and> pr = logits_to_probs_binary (zi_logits z)
             \<and> z1 = z\<lparr>zi_probs_attr := Some pr\<rparr>
             \<and> ZINB_zi_probs z1 = (pr, z1)
             \<and> (\<forall>w. lazy_property w zi_probs_attr (\<lambda>v x. x\<lparr>zi_probs_attr := Some v\<rparr>) z1
                      = (pr, z1)))"
proof -
  from ZINB_call_Inr[OF assms] have np: "map_of kwargs ''zi_probs'' = None"
    and i: "ZINB_init (map_of kwargs ''total_count'') (map_of kwargs ''probs'')
             (map_of kwargs ''logits'') (map_of kwargs ''mu'') (map_of kwargs ''theta'')
             (map_of kwargs ''zi_logits'') va = Inr z"
    by simp_all
  from ZINB_init_Inr[OF i] have zl: "map_of kwargs ''zi_logits'' \<noteq> None"
    and fresh: "zi_probs_attr z = None" by simp_all
  let ?pr = "logits_to_probs_binary (zi_logits z)"
  let ?z1 = "z\<lparr>zi_probs_attr := Some ?pr\<rparr>"
  have a: "ZINB_zi_probs z = (?pr, ?z1)"
    using fresh by (simp add: ZINB_zi_probs_fresh logits_to_probs_binary_def)
  have b: "ZINB_zi_probs ?z1 = (?pr, ?z1)"
    by (simp add: ZINB_zi_probs_cached)
  have c: "\<forall>w. lazy_property w zi_probs_attr (\<lambda>v x. x\<lparr>zi_probs_attr := Some v\<rparr>) ?z1 = (?pr, ?z1)"
    by (simp add: lazy_property_def)
  from np zl fresh a b c show ?thesis by blast
qed

theorem ZINB_zi_logits_given_zi_probs_lazy_witness:
  "ZINB_call [(''mu'', [Fin 2]), (''theta'', [Fin 1]), (''zi_logits'', [Fin 0])] True
     = Inr \<lparr>NB_eps = 1 / 10 ^ 8, mu = [Fin 2], theta = [Fin 1], validate_args = True,
            zi_logits = [Fin 0], zi_probs_attr = None\<rparr>
   \<and> ZINB_zi_probs \<lparr>NB_eps = 1 / 10 ^ 8, mu = [Fin 2], theta = [Fin 1], validate_args = True,
            zi_logits = [Fin 0], zi_probs_attr = None\<rparr>
     = ([Fin (1 / 2)], \<lparr>NB_eps = 1 / 10 ^ 8, mu = [Fin 2], theta = [Fin 1], validate_args = True,
            zi_logits = [Fin 0], zi_probs_attr = Some [Fin (1 / 2)]\<rparr>)
   \<and> ZINB_zi_probs \<lparr>NB_eps = 1 / 10 ^ 8, mu = [Fin 2], theta = [Fin 1], validate_args = True,
            zi_logits = [Fin 0], zi_probs_attr = Some [Fin (1 / 2)]\<rparr>
     = ([Fin (1 / 2)], \<lparr>NB_eps = 1 / 10 ^ 8, mu = [Fin 2], theta = [Fin 1], validate_args = True,
            zi_logits = [Fin 0], zi_probs_attr = Some [Fin (1 / 2)]\<rparr>)"
proof -
  have c: "ZINB_call [(''mu'', [Fin 2]), (''theta'', [Fin 1]), (''zi_logits'', [Fin 0])] True
     = Inr \<lparr>NB_eps = 1 / 10 ^ 8, mu = [Fin 2], theta = [Fin 1], validate_args = True,
            zi_logits = [Fin 0], zi_probs_attr = None\<rparr>"
    by (simp add: eval_defs)
  from ZINB_zi_logits_given_zi_probs_lazy[OF c] c show ?thesis
    by (auto simp: logits_to_probs_binary_def)
qed

section \<open>Validation of the zero-inflation parameters\<close>

text \<open>
  Claim C8 at a zero-inflation probability of one. The class declares \<^verbatim>\<open>zi_probs\<close> in the
  half-open interval from zero to one and \<^verbatim>\<open>zi_logits\<close> real. With validation enabled the
  constructor nevertheless returns an object for the zero-inflation logit \<open>+\<infinity>\<close>, whose
  zero-inflation probability is exactly one, and for the logit NaN: validation runs inside
  \<^verbatim>\<open>NB.__init__\<close>, before \<^verbatim>\<open>ZINB.__init__\<close> stores \<^verbatim>\<open>zi_logits\<close>, so both parameters are
  lazy properties absent from the instance and are skipped. The same validation rejects
  either value once it is in the instance.
\<close>

theorem ZINB_zero_inflation_unchecked:
  "ZINB_init None None None (Some [Fin 1]) (Some [Fin 1]) (Some [PInf]) True
     = Inr \<lparr>NB_eps = 1 / 10 ^ 8, mu = [Fin 1], theta = [Fin 1], validate_args = True,
            zi_logits = [PInf], zi_probs_attr = None\<rparr>
   \<and> fst (ZINB_zi_probs \<lparr>NB_eps = 1 / 10 ^ 8, mu = [Fin 1], theta = [Fin 1], validate_args = True,
            zi_logits = [PInf], zi_probs_attr = None\<rparr>) = [Fin 1]
   \<and> \<not> half_open_interval 0 1 (Fin 1)
   \<and> ZINB_init None None None (Some [Fin 1]) (Some [Fin 1]) (Some [NaN]) True
     = Inr \<lparr>NB_eps = 1 / 10 ^ 8, mu = [Fin 1], theta = [Fin 1], validate_args = True,
            zi_logits = [NaN], zi_probs_attr = None\<rparr>
   \<and> \<not> real_constraint NaN
   \<and> Distribution_init ZINB_cls
        [''mu'' \<mapsto> [Fin 1], ''theta'' \<mapsto> [Fin 1], ''zi_logits'' \<mapsto> [NaN]] True = Some DomainError
   \<and> Distribution_init ZINB_cls
        [''mu'' \<mapsto> [Fin 1], ''theta'' \<mapsto> [Fin 1], ''zi_probs'' \<mapsto> [Fin 1]] True = Some DomainError"
  by (simp add: eval_defs ZINB_zi_probs_fresh)

end
